theory Spec2Isabelle
  imports Complex_Main
begin

section \<open>Python strings\<close>

text \<open>
  A Python \<^verbatim>\<open>str\<close> is a sequence of Unicode code points, and \<^verbatim>\<open>replace\<close>,
  \<^verbatim>\<open>split\<close>, \<^verbatim>\<open>strip\<close> and the comparison operators work on code points. A string is
  therefore a list of code points. \<open>u\<close> turns an ASCII literal into such a string.
\<close>

type_synonym pystr = "nat list"

definition u :: "string \<Rightarrow> pystr" where
  "u s = map of_char s"

text \<open>\<^verbatim>\<open>a < b\<close> on two strings: lexicographic on the code points.\<close>

fun str_less :: "pystr \<Rightarrow> pystr \<Rightarrow> bool" where
  "str_less [] [] = False"
| "str_less [] (y # ys) = True"
| "str_less (x # xs) [] = False"
| "str_less (x # xs) (y # ys) = (x < y \<or> (x = y \<and> str_less xs ys))"

definition str_le :: "pystr \<Rightarrow> pystr \<Rightarrow> bool" where
  "str_le a b = (a = b \<or> str_less a b)"

text \<open>
  \<^verbatim>\<open>s.replace(old, new)\<close> where \<^verbatim>\<open>old\<close> and \<^verbatim>\<open>new\<close> are one code point each, the only
  use in \<^verbatim>\<open>process_symbols\<close>.
\<close>

definition replace :: "nat \<Rightarrow> nat \<Rightarrow> pystr \<Rightarrow> pystr" where
  "replace old new s = map (\<lambda>c. if c = old then new else c) s"

text \<open>
  \<^verbatim>\<open>s.split(sep)\<close> for a separator of one code point: the pieces between the separators,
  empty pieces included; the empty string gives one empty piece.
\<close>

fun split :: "nat \<Rightarrow> pystr \<Rightarrow> pystr list" where
  "split sep [] = [[]]"
| "split sep (c # cs) =
     (if c = sep then [] # split sep cs
      else (case split sep cs of
              [] \<Rightarrow> [[c]]
            | t # ts \<Rightarrow> (c # t) # ts))"

text \<open>
  The code points for which \<^verbatim>\<open>str.isspace\<close> holds; \<^verbatim>\<open>strip()\<close> without argument removes
  them from both ends.
\<close>

definition isspace :: "nat \<Rightarrow> bool" where
  "isspace c \<longleftrightarrow>
     (0x9 \<le> c \<and> c \<le> 0xD) \<or> (0x1C \<le> c \<and> c \<le> 0x20) \<or> c = 0x85 \<or> c = 0xA0 \<or>
     c = 0x1680 \<or> (0x2000 \<le> c \<and> c \<le> 0x200A) \<or> c = 0x2028 \<or> c = 0x2029 \<or>
     c = 0x202F \<or> c = 0x205F \<or> c = 0x3000"

definition strip :: "pystr \<Rightarrow> pystr" where
  "strip s = rev (dropWhile isspace (rev (dropWhile isspace s)))"

section \<open>Calendar dates\<close>

text \<open>
  The part of \<^verbatim>\<open>datetime\<close> that \<^verbatim>\<open>update_stock_data\<close> uses: a calendar day,
  \<^verbatim>\<open>strptime\<close> and \<^verbatim>\<open>strftime\<close> with the format \<^verbatim>\<open>%Y-%m-%d\<close>, and the addition of
  \<^verbatim>\<open>timedelta(days=1)\<close>. The time of day is always midnight there and is left out.
\<close>

record date =
  year :: nat
  month :: nat
  day :: nat

definition is_leap :: "nat \<Rightarrow> bool" where
  "is_leap y \<longleftrightarrow> y mod 4 = 0 \<and> (y mod 100 \<noteq> 0 \<or> y mod 400 = 0)"

definition days_in_month :: "nat \<Rightarrow> nat \<Rightarrow> nat" where
  "days_in_month y m =
     (if m = 2 then (if is_leap y then 29 else 28)
      else if m = 4 \<or> m = 6 \<or> m = 9 \<or> m = 11 then 30
      else 31)"

text \<open>The dates a \<^verbatim>\<open>datetime\<close> can hold: years 1 to 9999.\<close>

definition valid_date :: "date \<Rightarrow> bool" where
  "valid_date d \<longleftrightarrow>
     1 \<le> year d \<and> year d \<le> 9999 \<and> 1 \<le> month d \<and> month d \<le> 12 \<and>
     1 \<le> day d \<and> day d \<le> days_in_month (year d) (month d)"

text \<open>Chronological order.\<close>

definition date_less :: "date \<Rightarrow> date \<Rightarrow> bool" where
  "date_less a b \<longleftrightarrow>
     year a < year b \<or>
     (year a = year b \<and> (month a < month b \<or> (month a = month b \<and> day a < day b)))"

text \<open>
  \<^verbatim>\<open>d + timedelta(days=1)\<close>; \<open>None\<close> is the \<^verbatim>\<open>OverflowError\<close> raised past 9999-12-31.
\<close>

definition add_one_day :: "date \<Rightarrow> date option" where
  "add_one_day d =
     (if day d < days_in_month (year d) (month d) then Some (d\<lparr>day := day d + 1\<rparr>)
      else if month d < 12 then Some (d\<lparr>month := month d + 1, day := 1\<rparr>)
      else if year d < 9999 then Some \<lparr>year = year d + 1, month = 1, day = 1\<rparr>
      else None)"

text \<open>
  \<^verbatim>\<open>strftime("%Y-%m-%d")\<close>. The year is written with four digits; the C library decides
  what \<^verbatim>\<open>%Y\<close> prints for a year below 1000 (glibc does not pad it), so the results below
  that depend on this function are stated for years from 1000 on.
\<close>

definition digit :: "nat \<Rightarrow> nat" where
  "digit n = 48 + n mod 10"

definition fmt2 :: "nat \<Rightarrow> pystr" where
  "fmt2 n = [digit (n div 10), digit n]"

definition fmt4 :: "nat \<Rightarrow> pystr" where
  "fmt4 n = [digit (n div 1000), digit (n div 100), digit (n div 10), digit n]"

definition strftime :: "date \<Rightarrow> pystr" where
  "strftime d = fmt4 (year d) @ [45] @ fmt2 (month d) @ [45] @ fmt2 (day d)"

text \<open>
  \<^verbatim>\<open>datetime.strptime(s, "%Y-%m-%d")\<close>; \<open>None\<close> is the \<^verbatim>\<open>ValueError\<close> it raises. The
  library matches the regular expression
  \<^verbatim>\<open>(\d\d\d\d)-(1[0-2]|0[1-9]|[1-9])-(3[01]|[12]\d|0[1-9]|[1-9]| [1-9])\<close>
  at the start of the string, rejects a rest that is left over, and rejects year 0 and a day
  that the month does not have. Only the ASCII digits are taken as \<^verbatim>\<open>\d\<close> here (Python
  accepts every Unicode decimal digit).
\<close>

definition dig :: "nat \<Rightarrow> nat option" where
  "dig c = (if 48 \<le> c \<and> c \<le> 57 then Some (c - 48) else None)"

fun parse_year :: "pystr \<Rightarrow> (nat \<times> pystr) option" where
  "parse_year (a # b # c # d # rest) =
     (case (dig a, dig b, dig c, dig d) of
        (Some w, Some x, Some y, Some z) \<Rightarrow> Some (1000 * w + 100 * x + 10 * y + z, rest)
      | _ \<Rightarrow> None)"
| "parse_year _ = None"

fun parse_month :: "pystr \<Rightarrow> (nat \<times> pystr) option" where
  "parse_month (a # b # rest) =
     (if a = 49 \<and> 48 \<le> b \<and> b \<le> 50 then Some (10 + (b - 48), rest)
      else if a = 48 \<and> 49 \<le> b \<and> b \<le> 57 then Some (b - 48, rest)
      else if 49 \<le> a \<and> a \<le> 57 then Some (a - 48, b # rest)
      else None)"
| "parse_month [a] = (if 49 \<le> a \<and> a \<le> 57 then Some (a - 48, []) else None)"
| "parse_month [] = None"

fun parse_day :: "pystr \<Rightarrow> (nat \<times> pystr) option" where
  "parse_day (a # b # rest) =
     (if a = 51 \<and> 48 \<le> b \<and> b \<le> 49 then Some (30 + (b - 48), rest)
      else if 49 \<le> a \<and> a \<le> 50 \<and> 48 \<le> b \<and> b \<le> 57 then Some (10 * (a - 48) + (b - 48), rest)
      else if a = 48 \<and> 49 \<le> b \<and> b \<le> 57 then Some (b - 48, rest)
      else if 49 \<le> a \<and> a \<le> 57 then Some (a - 48, b # rest)
      else if a = 32 \<and> 49 \<le> b \<and> b \<le> 57 then Some (b - 48, rest)
      else None)"
| "parse_day [a] = (if 49 \<le> a \<and> a \<le> 57 then Some (a - 48, []) else None)"
| "parse_day [] = None"

definition expect_dash :: "pystr \<Rightarrow> pystr option" where
  "expect_dash s = (case s of c # rest \<Rightarrow> (if c = 45 then Some rest else None) | [] \<Rightarrow> None)"

definition strptime :: "pystr \<Rightarrow> date option" where
  "strptime s =
     (case parse_year s of
        None \<Rightarrow> None
      | Some (y, s1) \<Rightarrow>
          (case expect_dash s1 of
             None \<Rightarrow> None
           | Some s2 \<Rightarrow>
               (case parse_month s2 of
                  None \<Rightarrow> None
                | Some (m, s3) \<Rightarrow>
                    (case expect_dash s3 of
                       None \<Rightarrow> None
                     | Some s4 \<Rightarrow>
                         (case parse_day s4 of
                            None \<Rightarrow> None
                          | Some (d, s5) \<Rightarrow>
                              (if s5 \<noteq> [] then None
                               else if y = 0 then None
                               else if days_in_month y m < d then None
                               else Some \<lparr>year = y, month = m, day = d\<rparr>))))))"

section \<open>Exceptions\<close>

text \<open>The exceptions that the modelled code and its libraries raise.\<close>

datatype py_error =
  ValueError | KeyError | TypeError | OverflowError | AttributeError
  | OperationalError | IntegrityError | ProgrammingError

section \<open>Data frames\<close>

text \<open>
  The values found in a cell of a pandas data frame: a missing value (\<^verbatim>\<open>None\<close>,
  \<^verbatim>\<open>NaN\<close>, \<^verbatim>\<open>NaT\<close>), a string, a number, a timestamp (its calendar day; time of day and
  zone are left out), a \<^verbatim>\<open>datetime.date\<close>, or any other Python object.
\<close>

datatype cell = Null | Text pystr | Num rat | Stamp date | Day date | Obj

text \<open>
  A data frame with a single-level index: the name of the index, the column labels in
  order (labels may repeat), and the rows, each the index label and one cell per column.
\<close>

record dataframe =
  index_name :: "pystr option"
  columns :: "pystr list"
  rows :: "(cell \<times> cell list) list"

text \<open>\<^verbatim>\<open>df.empty\<close>: an axis of length zero.\<close>

definition df_empty :: "dataframe \<Rightarrow> bool" where
  "df_empty df \<longleftrightarrow> rows df = [] \<or> columns df = []"

text \<open>
  \<^verbatim>\<open>df.reset_index()\<close>: the index becomes the first column, named after the index, or
  \<^verbatim>\<open>index\<close> when the index has no name (\<^verbatim>\<open>level_0\<close> when a column \<^verbatim>\<open>index\<close> exists); the
  new index counts the rows. It raises \<^verbatim>\<open>ValueError\<close> when that name is already a column.
\<close>

definition reset_index :: "dataframe \<Rightarrow> py_error + dataframe" where
  "reset_index df =
     (let name = (case index_name df of
                    Some n \<Rightarrow> n
                  | None \<Rightarrow> if u ''index'' \<in> set (columns df) then u ''level_0'' else u ''index'')
      in if name \<in> set (columns df) then Inl ValueError
         else Inr \<lparr>index_name = None, columns = name # columns df,
                   rows = map (\<lambda>(i, ix, cs). (Num (of_nat i), ix # cs))
                            (enumerate 0 (rows df))\<rparr>)"

text \<open>\<^verbatim>\<open>df.rename(columns=m)\<close> for a dictionary \<open>m\<close>, given as its items.\<close>

definition rename :: "(pystr \<times> pystr) list \<Rightarrow> dataframe \<Rightarrow> dataframe" where
  "rename m df =
     df\<lparr>columns := map (\<lambda>c. case map_of m c of Some v \<Rightarrow> v | None \<Rightarrow> c) (columns df)\<rparr>"

text \<open>The cells of a row under the label \<open>c\<close>, and a function applied to exactly those.\<close>

definition get_named :: "pystr \<Rightarrow> pystr list \<Rightarrow> cell list \<Rightarrow> cell list" where
  "get_named c ns vs = map snd (filter (\<lambda>(n, v). n = c) (zip ns vs))"

fun map_named :: "(cell \<Rightarrow> cell) \<Rightarrow> pystr \<Rightarrow> pystr list \<Rightarrow> cell list \<Rightarrow> cell list" where
  "map_named f c (n # ns) (v # vs) = (if n = c then f v else v) # map_named f c ns vs"
| "map_named f c ns vs = vs"

definition map_column :: "(cell \<Rightarrow> cell) \<Rightarrow> pystr \<Rightarrow> dataframe \<Rightarrow> dataframe" where
  "map_column f c df =
     df\<lparr>rows := map (\<lambda>(ix, cs). (ix, map_named f c (columns df) cs)) (rows df)\<rparr>"

text \<open>
  \<^verbatim>\<open>df[c] = v\<close> for a scalar \<open>v\<close>: every column labelled \<open>c\<close> is overwritten; when there is
  none, a new last column is added.
\<close>

definition set_column :: "pystr \<Rightarrow> cell \<Rightarrow> dataframe \<Rightarrow> dataframe" where
  "set_column c v df =
     (if c \<in> set (columns df) then map_column (\<lambda>_. v) c df
      else df\<lparr>columns := columns df @ [c],
              rows := map (\<lambda>(ix, cs). (ix, cs @ [v])) (rows df)\<rparr>)"

text \<open>\<^verbatim>\<open>df.dropna(subset=[c])\<close> for a label \<open>c\<close> that occurs once.\<close>

definition dropna :: "pystr \<Rightarrow> dataframe \<Rightarrow> dataframe" where
  "dropna c df = df\<lparr>rows := filter (\<lambda>(ix, cs). get_named c (columns df) cs \<noteq> [Null]) (rows df)\<rparr>"

section \<open>process\_stock\_data\<close>

definition column_mapping :: "(pystr \<times> pystr) list" where
  "column_mapping =
     [([0x65E5, 0x671F], u ''date''), (u ''trade_date'', u ''date''), (u ''index'', u ''date''),
      ([0x5F00, 0x76D8], u ''open''), ([0x6536, 0x76D8], u ''close''),
      ([0x6700, 0x9AD8], u ''high''), ([0x6700, 0x4F4E], u ''low''),
      ([0x6210, 0x4EA4, 0x91CF], u ''volume''), ([0x6210, 0x4EA4, 0x989D], u ''amount''),
      ([0x632F, 0x5E45], u ''amplitude''), ([0x6DA8, 0x8DCC, 0x5E45], u ''change_percent''),
      ([0x6DA8, 0x8DCC, 0x989D], u ''change''), ([0x6362, 0x624B, 0x7387], u ''turnover'')]"

definition required_columns :: "pystr list" where
  "required_columns = [u ''date'', u ''open'', u ''close'', u ''high'', u ''low'', u ''volume'']"

text \<open>
  The three statements on the date column. \<^verbatim>\<open>df["date"]\<close> is a data frame, not a series,
  when the label occurs more than once, and \<^verbatim>\<open>pd.to_datetime\<close> raises \<^verbatim>\<open>ValueError\<close> on a
  data frame with repeated labels. On a series, with \<^verbatim>\<open>errors='coerce'\<close>, it gives every
  element a timestamp or \<^verbatim>\<open>NaT\<close>; which elements parse is the library's decision and is
  the parameter \<open>to_datetime\<close> (\<open>None\<close> for \<^verbatim>\<open>NaT\<close>).
\<close>

definition convert_dates :: "(cell \<Rightarrow> date option) \<Rightarrow> dataframe \<Rightarrow> py_error + dataframe" where
  "convert_dates to_datetime df =
     (if u ''date'' \<in> set (columns df) then
        (if length (filter (\<lambda>c. c = u ''date'') (columns df)) \<noteq> 1 then Inl ValueError
         else
           let df1 = map_column (\<lambda>v. case to_datetime v of None \<Rightarrow> Null | Some d \<Rightarrow> Stamp d)
                       (u ''date'') df;
               df2 = dropna (u ''date'') df1
           in Inr (map_column (\<lambda>v. case v of Stamp d \<Rightarrow> Text (strftime d) | _ \<Rightarrow> v)
                     (u ''date'') df2))
      else Inr df)"

definition process_stock_data ::
  "(cell \<Rightarrow> date option) \<Rightarrow> dataframe \<Rightarrow> pystr \<Rightarrow> pystr \<Rightarrow> pystr \<Rightarrow> py_error + dataframe" where
  "process_stock_data to_datetime df symbol period adjust =
     (case (if u ''date'' \<notin> set (columns df) then reset_index df else Inr df) of
        Inl e \<Rightarrow> Inl e
      | Inr df1 \<Rightarrow>
          (let df2 = rename (filter (\<lambda>(k, v). k \<in> set (columns df1)) column_mapping) df1
           in case convert_dates to_datetime df2 of
                Inl e \<Rightarrow> Inl e
              | Inr df3 \<Rightarrow>
                  (let df4 = set_column (u ''symbol'') (Text symbol) df3;
                       df5 = set_column (u ''period'') (Text period) df4;
                       df6 = set_column (u ''adjust'')
                               (Text (if adjust \<noteq> [] then adjust else u ''None'')) df5
                   in Inr (fold (\<lambda>col d. if col \<notin> set (columns d) then set_column col Null d
                                       else d)
                             required_columns df6))))"

section \<open>safe\_fetch\_stock\_data\<close>

text \<open>
  The vendor call \<^verbatim>\<open>ak.stock_zh_a_hist\<close> is the outside world: what the \<open>n\<close>-th call of
  the program answers to a request is the parameter \<open>vendor\<close>. An answer is a
  \<^verbatim>\<open>requests.exceptions.RequestException\<close>, any other exception, \<^verbatim>\<open>None\<close>, or a data
  frame.
\<close>

record request =
  req_symbol :: pystr
  req_period :: pystr
  req_start_date :: pystr
  req_end_date :: pystr
  req_adjust :: pystr

datatype response = RequestException | OtherException | NoFrame | Frame dataframe

type_synonym vendor = "nat \<Rightarrow> request \<Rightarrow> response"

text \<open>
  What the program does to the outside, in order: \<^verbatim>\<open>add_random_delay\<close> (with its
  arguments, \<open>None\<close> for the configured bounds), the vendor call, and \<^verbatim>\<open>time.sleep\<close> of
  a number of seconds. The messages written to the page are not modelled.
\<close>

datatype event = RandomDelay "(nat \<times> nat) option" | VendorCall request | Sleep nat

text \<open>
  The loop \<^verbatim>\<open>for attempt in range(max_retries)\<close> from \<open>attempt\<close> on. \<open>n\<close> counts the
  vendor calls made so far; the result is the events, the new count and the returned value,
  \<open>None\<close> for Python's \<^verbatim>\<open>None\<close>. Falling out of the loop returns \<^verbatim>\<open>None\<close> as well.
\<close>

function attempt_loop ::
  "(cell \<Rightarrow> date option) \<Rightarrow> vendor \<Rightarrow> nat \<Rightarrow> pystr \<Rightarrow> pystr \<Rightarrow> pystr \<Rightarrow> pystr \<Rightarrow> pystr \<Rightarrow>
   int \<Rightarrow> nat \<Rightarrow> event list \<times> nat \<times> dataframe option" where
  "attempt_loop to_datetime vendor n symbol start_date end_date period adjust max_retries attempt =
     (if int attempt < max_retries then
        (let adjust_param = (if adjust \<noteq> u ''None'' then adjust else []);
             req = \<lparr>req_symbol = symbol, req_period = period, req_start_date = start_date,
                    req_end_date = end_date, req_adjust = adjust_param\<rparr>;
             tried = [RandomDelay None, VendorCall req]
         in case vendor n req of
              NoFrame \<Rightarrow> (tried, n + 1, None)
            | Frame df \<Rightarrow>
                (if df_empty df then (tried, n + 1, None)
                 else (case process_stock_data to_datetime df symbol period adjust of
                         Inr d \<Rightarrow> (tried, n + 1, Some d)
                       | Inl e \<Rightarrow> (tried, n + 1, None)))
            | RequestException \<Rightarrow>
                (if int attempt < max_retries - 1 then
                   (case attempt_loop to_datetime vendor (n + 1) symbol start_date end_date
                           period adjust max_retries (attempt + 1) of
                      (es, n', r) \<Rightarrow> (tried @ [Sleep (2 ^ (attempt + 1))] @ es, n', r))
                 else (tried, n + 1, None))
            | OtherException \<Rightarrow> (tried, n + 1, None))
      else ([], n, None))"
  by pat_completeness auto
termination
  by (relation "measure (\<lambda>(td, v, n, s, sd, ed, p, a, m, k). nat (m - int k))") auto

text \<open>
  \<open>cfg_max_retries\<close> is \<^verbatim>\<open>REQUEST_CONFIG['max_retries']\<close> at the time of the call;
  \<^verbatim>\<open>max_retries or ...\<close> takes it when the argument is \<^verbatim>\<open>None\<close> or 0.
\<close>

definition safe_fetch_stock_data ::
  "(cell \<Rightarrow> date option) \<Rightarrow> vendor \<Rightarrow> nat \<Rightarrow> int \<Rightarrow> pystr \<Rightarrow> pystr \<Rightarrow> pystr \<Rightarrow> pystr \<Rightarrow> pystr \<Rightarrow>
   int option \<Rightarrow> event list \<times> nat \<times> dataframe option" where
  "safe_fetch_stock_data to_datetime vendor n cfg_max_retries symbol start_date end_date
       period adjust max_retries =
     (let mr = (case max_retries of
                  None \<Rightarrow> cfg_max_retries
                | Some m \<Rightarrow> if m \<noteq> 0 then m else cfg_max_retries)
      in attempt_loop to_datetime vendor n symbol start_date end_date period adjust mr 0)"

section \<open>process\_symbols and fetch\_multiple\_stocks\<close>

text \<open>
  \<^verbatim>\<open>list(set(symbols))\<close> keeps one copy of every token. Python leaves the order of the
  result open; the model keeps the order of the last occurrences, and no statement below
  depends on the order.
\<close>

definition process_symbols :: "pystr \<Rightarrow> pystr list" where
  "process_symbols symbols_str =
     (let symbols = replace 32 44 (replace 59 44 (replace 0xFF0C 44 symbols_str))
      in remdups (map strip (filter (\<lambda>s. strip s \<noteq> []) (split 44 symbols))))"



section \<open>The table stock\_zh\_a\_hist\<close>

text \<open>
  The values SQLite stores, and its order on them: \<^verbatim>\<open>NULL\<close> below every number, every
  number below every text, texts by their code points (the \<^verbatim>\<open>BINARY\<close> collation). The
  conversions of column affinity are not modelled: they leave alone what the pipeline
  stores, texts that are not numerals in the key columns.
\<close>

datatype sqlval = SNull | SNum rat | SText pystr

fun sql_less :: "sqlval \<Rightarrow> sqlval \<Rightarrow> bool" where
  "sql_less SNull SNull = False"
| "sql_less SNull (SNum b) = True"
| "sql_less SNull (SText b) = True"
| "sql_less (SNum a) SNull = False"
| "sql_less (SNum a) (SNum b) = (a < b)"
| "sql_less (SNum a) (SText b) = True"
| "sql_less (SText a) SNull = False"
| "sql_less (SText a) (SNum b) = False"
| "sql_less (SText a) (SText b) = str_less a b"

text \<open>
  The comparisons of a \<^verbatim>\<open>WHERE\<close> clause and of a \<^verbatim>\<open>UNIQUE\<close> constraint: they do not hold
  when an operand is \<^verbatim>\<open>NULL\<close>.
\<close>

definition sql_eq :: "sqlval \<Rightarrow> sqlval \<Rightarrow> bool" where
  "sql_eq a b \<longleftrightarrow> a \<noteq> SNull \<and> b \<noteq> SNull \<and> a = b"

definition sql_ge :: "sqlval \<Rightarrow> sqlval \<Rightarrow> bool" where
  "sql_ge a b \<longleftrightarrow> a \<noteq> SNull \<and> b \<noteq> SNull \<and> \<not> sql_less a b"

text \<open>
  How the \<^verbatim>\<open>sqlite3\<close> module binds a Python value: a missing value as \<^verbatim>\<open>NULL\<close>, a
  timestamp and a date through the default adapters as ISO text, and an object it has no
  adapter for not at all (\<open>None\<close>: it raises \<^verbatim>\<open>ProgrammingError\<close>).
\<close>

fun bind :: "cell \<Rightarrow> sqlval option" where
  "bind Null = Some SNull"
| "bind (Text s) = Some (SText s)"
| "bind (Num q) = Some (SNum q)"
| "bind (Stamp d) = Some (SText (strftime d @ u '' 00:00:00''))"
| "bind (Day d) = Some (SText (strftime d))"
| "bind Obj = None"

text \<open>
  The fourteen values of the \<^verbatim>\<open>INSERT\<close> statement: the key columns by name, and
  \<open>prices\<close> for the ten columns open, close, high, low, volume, amount, amplitude,
  change\_percent, change, turnover in this order. A stored row adds the \<^verbatim>\<open>id\<close> and the
  \<^verbatim>\<open>create_time\<close> that the engine assigns.
\<close>

record 'v hist_values =
  symbol_col :: 'v
  date_col :: 'v
  prices :: "'v list"
  period_col :: 'v
  adjust_col :: 'v

record hist_row =
  id_col :: nat
  vals :: "sqlval hist_values"
  create_time :: nat

text \<open>
  A database file that opens holds the table or not yet (\<open>hist = None\<close>), and the counter
  of \<^verbatim>\<open>AUTOINCREMENT\<close> (the table \<^verbatim>\<open>sqlite_sequence\<close>). \<^verbatim>\<open>sqlite3.connect\<close> raises
  \<^verbatim>\<open>OperationalError\<close> for a path it cannot open or create.
\<close>

record database =
  hist :: "hist_row list option"
  seq :: nat

datatype db_file = Unopenable | Opens database


section \<open>save\_stocks\_to\_db\<close>

text \<open>
  \<^verbatim>\<open>row.get(c, default)\<close> on a row of the frame: the default when no column has the
  label, the cell when one has, and a series (an object) when several have.
\<close>

definition row_get :: "pystr list \<Rightarrow> cell list \<Rightarrow> pystr \<Rightarrow> cell \<Rightarrow> cell" where
  "row_get cols cs c dflt =
     (case get_named c cols cs of [] \<Rightarrow> dflt | [v] \<Rightarrow> v | _ \<Rightarrow> Obj)"

definition data_to_insert :: "dataframe \<Rightarrow> cell hist_values list" where
  "data_to_insert df =
     map (\<lambda>(ix, cs).
            let get = row_get (columns df) cs
            in \<lparr>symbol_col = get (u ''symbol'') Null,
                date_col = get (u ''date'') Null,
                prices = [get (u ''open'') Null, get (u ''close'') Null,
                          get (u ''high'') Null, get (u ''low'') Null,
                          get (u ''volume'') Null, get (u ''amount'') Null,
                          get (u ''amplitude'') Null, get (u ''change_percent'') Null,
                          get (u ''change'') Null, get (u ''turnover'') Null],
                period_col = get (u ''period'') (Text (u ''daily'')),
                adjust_col = get (u ''adjust'') (Text (u ''qfq''))\<rparr>)
         (rows df)"

definition bind_values :: "cell hist_values \<Rightarrow> sqlval hist_values option" where
  "bind_values t =
     (case (bind (symbol_col t), bind (date_col t), those (map bind (prices t)),
            bind (period_col t), bind (adjust_col t)) of
        (Some s, Some d, Some ps, Some p, Some a) \<Rightarrow>
          Some \<lparr>symbol_col = s, date_col = d, prices = ps, period_col = p, adjust_col = a\<rparr>
      | _ \<Rightarrow> None)"

text \<open>
  \<^verbatim>\<open>UNIQUE(symbol, date, period, adjust)\<close>: a new row conflicts with a stored one when
  the four values are equal and none is \<^verbatim>\<open>NULL\<close>.
\<close>

definition conflicts :: "sqlval hist_values \<Rightarrow> hist_row \<Rightarrow> bool" where
  "conflicts v r \<longleftrightarrow>
     sql_eq (symbol_col v) (symbol_col (vals r)) \<and> sql_eq (date_col v) (date_col (vals r)) \<and>
     sql_eq (period_col v) (period_col (vals r)) \<and> sql_eq (adjust_col v) (adjust_col (vals r))"

text \<open>
  \<^verbatim>\<open>INSERT OR IGNORE\<close> of one row at time \<open>now\<close>, on the rows, the counter and the
  connection's \<^verbatim>\<open>total_changes\<close>. The row gets the next id; it is skipped when symbol or
  date is \<^verbatim>\<open>NULL\<close> (both are \<^verbatim>\<open>NOT NULL\<close>) or when it conflicts with a stored row. The
  counter moves on for a skipped row too.
\<close>

definition insert_or_ignore ::
  "nat \<Rightarrow> hist_row list \<times> nat \<times> nat \<Rightarrow> sqlval hist_values \<Rightarrow> hist_row list \<times> nat \<times> nat" where
  "insert_or_ignore now st v =
     (case st of (rs, sq, changes) \<Rightarrow>
        (let rid = Suc (fold max (map id_col rs) sq)
         in if symbol_col v = SNull \<or> date_col v = SNull then (rs, rid, changes)
            else if \<exists>r \<in> set rs. conflicts v r then (rs, rid, changes)
            else (rs @ [\<lparr>id_col = rid, vals = v, create_time = now\<rparr>], rid, changes + 1)))"

text \<open>
  \<^verbatim>\<open>conn.executemany\<close>: the rows are bound and inserted one after the other; a row that
  cannot be bound raises, after the rows before it have been inserted. The error comes with
  the connection's \<^verbatim>\<open>total_changes\<close> at that point, which a rollback does not reset.
\<close>

fun executemany ::
  "nat \<Rightarrow> hist_row list \<times> nat \<times> nat \<Rightarrow> cell hist_values list \<Rightarrow>
   (py_error \<times> nat) + (hist_row list \<times> nat \<times> nat)" where
  "executemany now st [] = Inr st"
| "executemany now st (t # ts) =
     (case bind_values t of
        None \<Rightarrow> Inl (ProgrammingError, snd (snd st))
      | Some v \<Rightarrow> executemany now (insert_or_ignore now st v) ts)"

text \<open>
  The loop over \<^verbatim>\<open>df_list\<close>. \<open>base\<close> is the database when the connection was opened,
  \<open>cur\<close> the database as the connection sees it; nothing is committed before the end of
  the loop, so \<^verbatim>\<open>conn.rollback()\<close> goes back to \<open>base\<close>. \<^verbatim>\<open>df["symbol"]\<close> is outside the
  \<^verbatim>\<open>try\<close>: its \<^verbatim>\<open>KeyError\<close> leaves the function, and the file stays as it was. A missing
  table makes \<^verbatim>\<open>executemany\<close> raise \<^verbatim>\<open>OperationalError\<close>. \<open>now\<close> is the clock of the
  call.
\<close>

fun save_loop ::
  "nat \<Rightarrow> database \<Rightarrow> database \<Rightarrow> nat \<Rightarrow> nat \<Rightarrow> dataframe list \<Rightarrow> db_file \<times> (py_error + nat)" where
  "save_loop now base cur changes total_inserted [] = (Opens cur, Inr total_inserted)"
| "save_loop now base cur changes total_inserted (df # dfs) =
     (if df_empty df then save_loop now base cur changes total_inserted dfs
      else if u ''symbol'' \<notin> set (columns df) then (Opens base, Inl KeyError)
      else (case hist cur of
              None \<Rightarrow> save_loop now base base changes total_inserted dfs
            | Some rs \<Rightarrow>
                (case executemany now (rs, seq cur, changes) (data_to_insert df) of
                   Inr (rs', sq', changes') \<Rightarrow>
                     save_loop now base \<lparr>hist = Some rs', seq = sq'\<rparr> changes'
                       (total_inserted + changes') dfs
                 | Inl (e, changes') \<Rightarrow> save_loop now base base changes' total_inserted dfs)))"

definition save_stocks_to_db :: "nat \<Rightarrow> dataframe list \<Rightarrow> db_file \<Rightarrow> db_file \<times> (py_error + nat)" where
  "save_stocks_to_db now df_list f =
     (if df_list = [] then (f, Inr 0)
      else (case f of
              Unopenable \<Rightarrow> (f, Inl OperationalError)
            | Opens db \<Rightarrow> save_loop now db db 0 0 df_list))"

section \<open>update\_stock\_data\<close>

text \<open>\<^verbatim>\<open>MAX\<close> over a column: the greatest value that is not \<^verbatim>\<open>NULL\<close>, or \<^verbatim>\<open>NULL\<close>.\<close>

definition sql_max :: "sqlval list \<Rightarrow> sqlval" where
  "sql_max vs = fold (\<lambda>v acc. if sql_less acc v then v else acc) vs SNull"

text \<open>
  \<open>today\<close> is \<^verbatim>\<open>datetime.now()\<close>. The connection and the \<^verbatim>\<open>SELECT\<close> are outside any
  \<^verbatim>\<open>try\<close>, and so are \<^verbatim>\<open>strptime\<close> and the addition of a day.
\<close>

definition max_date_query :: "hist_row list \<Rightarrow> pystr \<Rightarrow> pystr \<Rightarrow> pystr \<Rightarrow> sqlval" where
  "max_date_query rs symbol period adjust =
     sql_max (map (\<lambda>r. date_col (vals r))
       (filter (\<lambda>r. sql_eq (symbol_col (vals r)) (SText symbol) \<and>
                    sql_eq (period_col (vals r)) (SText period) \<and>
                    sql_eq (adjust_col (vals r))
                      (SText (if adjust \<noteq> u ''None'' then adjust else []))) rs))"

definition start_date_of :: "sqlval \<Rightarrow> py_error + pystr" where
  "start_date_of max_date =
     (case max_date of
        SNull \<Rightarrow> Inr (u ''1990-01-01'')
      | SNum q \<Rightarrow> if q = 0 then Inr (u ''1990-01-01'') else Inl TypeError
      | SText last_date \<Rightarrow>
          if last_date = [] then Inr (u ''1990-01-01'')
          else (case strptime last_date of
                  None \<Rightarrow> Inl ValueError
                | Some d \<Rightarrow>
                    (case add_one_day d of
                       None \<Rightarrow> Inl OverflowError
                     | Some d' \<Rightarrow> Inr (strftime d'))))"

definition update_stock_data ::
  "(cell \<Rightarrow> date option) \<Rightarrow> vendor \<Rightarrow> nat \<Rightarrow> int \<Rightarrow> date \<Rightarrow> db_file \<Rightarrow> pystr \<Rightarrow> pystr \<Rightarrow> pystr \<Rightarrow>
   py_error + (event list \<times> nat \<times> dataframe option)" where
  "update_stock_data to_datetime vendor n cfg today f symbol period adjust =
     (case f of
        Unopenable \<Rightarrow> Inl OperationalError
      | Opens db \<Rightarrow>
          (case hist db of
             None \<Rightarrow> Inl OperationalError
           | Some rs \<Rightarrow>
               (case start_date_of (max_date_query rs symbol period adjust) of
                  Inl e \<Rightarrow> Inl e
                | Inr start_date \<Rightarrow>
                    (let end_date = strftime today
                     in if str_less end_date start_date then Inr ([], n, None)
                        else Inr (safe_fetch_stock_data to_datetime vendor n cfg symbol
                                    start_date end_date period adjust None)))))"

section \<open>query\_stocks\_data\<close>

text \<open>
  The most parameters a statement may have (\<^verbatim>\<open>SQLITE_MAX_VARIABLE_NUMBER\<close>, 32766 in the
  builds since 3.32); a statement with more fails.
\<close>

definition max_variable_number :: nat where
  "max_variable_number = 32766"

text \<open>\<^verbatim>\<open>ORDER BY symbol, date ASC\<close>: an insertion sort on the two columns.\<close>

definition row_le :: "hist_row \<Rightarrow> hist_row \<Rightarrow> bool" where
  "row_le a b \<longleftrightarrow>
     sql_less (symbol_col (vals a)) (symbol_col (vals b)) \<or>
     (\<not> sql_less (symbol_col (vals b)) (symbol_col (vals a)) \<and>
      \<not> sql_less (date_col (vals b)) (date_col (vals a)))"

fun insort_row :: "hist_row \<Rightarrow> hist_row list \<Rightarrow> hist_row list" where
  "insort_row r [] = [r]"
| "insort_row r (x # xs) = (if row_le r x then r # x # xs else x # insort_row r xs)"

definition order_by :: "hist_row list \<Rightarrow> hist_row list" where
  "order_by rs = foldr insort_row rs []"

text \<open>
  The \<^verbatim>\<open>WHERE\<close> clause. \<^verbatim>\<open>if start_date:\<close> holds for a string that is not empty.
\<close>

definition selected ::
  "pystr list \<Rightarrow> pystr option \<Rightarrow> pystr option \<Rightarrow> pystr \<Rightarrow> pystr \<Rightarrow> hist_row \<Rightarrow> bool" where
  "selected symbols start_date end_date period adjust r \<longleftrightarrow>
     (\<exists>s \<in> set symbols. sql_eq (symbol_col (vals r)) (SText s)) \<and>
     sql_eq (period_col (vals r)) (SText period) \<and>
     sql_eq (adjust_col (vals r)) (SText (if adjust \<noteq> u ''None'' then adjust else [])) \<and>
     (case start_date of
        None \<Rightarrow> True
      | Some s \<Rightarrow> s = [] \<or> sql_ge (date_col (vals r)) (SText s)) \<and>
     (case end_date of
        None \<Rightarrow> True
      | Some e \<Rightarrow> e = [] \<or> sql_ge (SText e) (date_col (vals r)))"

definition count_params :: "pystr list \<Rightarrow> pystr option \<Rightarrow> pystr option \<Rightarrow> nat" where
  "count_params symbols start_date end_date =
     length symbols + 2 + (if start_date \<noteq> None \<and> start_date \<noteq> Some [] then 1 else 0)
       + (if end_date \<noteq> None \<and> end_date \<noteq> Some [] then 1 else 0)"

text \<open>
  The result is the rows of the returned frame, \<open>[]\<close> for an empty frame. The symbols
  are parsed before the connection is opened; the connection is opened before the
  \<^verbatim>\<open>try\<close>; a failing \<^verbatim>\<open>pd.read_sql\<close> (no table, too many parameters) is caught.
\<close>

definition query_stocks_data ::
  "db_file \<Rightarrow> pystr \<Rightarrow> pystr option \<Rightarrow> pystr option \<Rightarrow> pystr \<Rightarrow> pystr \<Rightarrow> py_error + hist_row list" where
  "query_stocks_data f symbols_str start_date end_date period adjust =
     (let symbols = process_symbols symbols_str
      in if symbols = [] then Inr []
         else (case f of
                 Unopenable \<Rightarrow> Inl OperationalError
               | Opens db \<Rightarrow>
                   (case hist db of
                      None \<Rightarrow> Inr []
                    | Some rs \<Rightarrow>
                        if max_variable_number < count_params symbols start_date end_date
                        then Inr []
                        else Inr (order_by
                               (filter (selected symbols start_date end_date period adjust) rs)))))"

section \<open>The US dashboard: DataManager.save\_stock\_data\<close>

text \<open>
  The table \<^verbatim>\<open>stocks\<close> that \<^verbatim>\<open>init_database\<close> creates in the constructor of
  \<^verbatim>\<open>DataManager\<close>. A stored row is its values for the nine data columns, in the order of
  \<open>db_columns\<close>; the \<^verbatim>\<open>id\<close> that the engine assigns is left out, and a frame column
  named like it is outside the model. \<^verbatim>\<open>symbol\<close> and \<^verbatim>\<open>date\<close>, the first two, are
  \<^verbatim>\<open>NOT NULL\<close> and \<^verbatim>\<open>UNIQUE\<close> together.
\<close>

type_synonym stock_row = "sqlval list"

definition db_columns :: "pystr list" where
  "db_columns = [u ''symbol'', u ''date'', u ''open'', u ''high'', u ''low'', u ''close'',
                 u ''volume'', u ''dividends'', u ''stock_splits'']"

definition init_database :: "stock_row list option \<Rightarrow> stock_row list" where
  "init_database t = (case t of None \<Rightarrow> [] | Some rs \<Rightarrow> rs)"

definition rename_map :: "(pystr \<times> pystr) list" where
  "rename_map =
     [(u ''Open'', u ''open''), (u ''High'', u ''high''), (u ''Low'', u ''low''),
      (u ''Close'', u ''close''), (u ''Volume'', u ''volume''),
      (u ''Dividends'', u ''dividends''), (u ''Stock Splits'', u ''stock_splits'')]"

text \<open>SQLite compares column names without regard to the case of ASCII letters.\<close>

definition lower :: "pystr \<Rightarrow> pystr" where
  "lower s = map (\<lambda>c. if 65 \<le> c \<and> c \<le> 90 then c + 32 else c) s"

text \<open>
  \<^verbatim>\<open>data[c].dt.date\<close>: the column must be one series of timestamps, otherwise the
  access raises \<^verbatim>\<open>AttributeError\<close>. Whether pandas takes a column for timestamps is read
  off its cells here: timestamps and \<^verbatim>\<open>NaT\<close> only, and a timestamp among them.
\<close>

definition column_cells :: "pystr \<Rightarrow> dataframe \<Rightarrow> cell list list" where
  "column_cells c df = map (\<lambda>(ix, cs). get_named c (columns df) cs) (rows df)"

definition is_stamp :: "cell \<Rightarrow> bool" where
  "is_stamp v = (case v of Stamp d \<Rightarrow> True | _ \<Rightarrow> False)"

definition dt_date :: "pystr \<Rightarrow> dataframe \<Rightarrow> py_error + cell list" where
  "dt_date c df =
     (let vs = concat (column_cells c df)
      in if length (filter (\<lambda>n. n = c) (columns df)) \<noteq> 1 then Inl AttributeError
         else if (\<forall>v \<in> set vs. v = Null \<or> is_stamp v) \<and> (\<exists>v \<in> set vs. is_stamp v)
         then Inr (map (\<lambda>v. case v of Stamp d \<Rightarrow> Day d | _ \<Rightarrow> Null) vs)
         else Inl AttributeError)"

text \<open>\<^verbatim>\<open>df[c] = series\<close> with one value for every row.\<close>

definition set_column_values :: "pystr \<Rightarrow> cell list \<Rightarrow> dataframe \<Rightarrow> dataframe" where
  "set_column_values c vs df =
     (if c \<in> set (columns df)
      then df\<lparr>rows := map (\<lambda>((ix, cs), v). (ix, map_named (\<lambda>_. v) c (columns df) cs))
                          (zip (rows df) vs)\<rparr>
      else df\<lparr>columns := columns df @ [c],
              rows := map (\<lambda>((ix, cs), v). (ix, cs @ [v])) (zip (rows df) vs)\<rparr>)"

text \<open>
  \<^verbatim>\<open>data.to_sql('stocks', conn, if_exists='append', index=False, method='multi',
  chunksize=1000)\<close> on the existing table: an \<^verbatim>\<open>INSERT\<close> that names every column of the
  frame. A name that is no column of the table fails; of several names for one column
  SQLite takes the first; a column that is not named is \<^verbatim>\<open>NULL\<close>. The rows go in within
  one transaction, so a failure leaves the table as it was.
\<close>

definition resolves :: "pystr \<Rightarrow> bool" where
  "resolves c \<longleftrightarrow> lower c \<in> set db_columns"

definition to_stock_row :: "pystr list \<Rightarrow> sqlval list \<Rightarrow> stock_row" where
  "to_stock_row cols vs =
     map (\<lambda>tc. case filter (\<lambda>(n, v). lower n = tc) (zip cols vs) of
                  [] \<Rightarrow> SNull
                | (n, v) # _ \<Rightarrow> v)
         db_columns"

fun insert_rows :: "stock_row list \<Rightarrow> stock_row list \<Rightarrow> py_error + stock_row list" where
  "insert_rows t [] = Inr t"
| "insert_rows t (r # rs) =
     (if SNull \<in> set (take 2 r) then Inl IntegrityError
      else if \<exists>x \<in> set t. take 2 x = take 2 r then Inl IntegrityError
      else insert_rows (t @ [r]) rs)"

definition to_sql :: "stock_row list \<Rightarrow> dataframe \<Rightarrow> py_error + stock_row list" where
  "to_sql t df =
     (if \<exists>c \<in> set (columns df). \<not> resolves c then Inl OperationalError
      else if max_variable_number < min (length (rows df)) 1000 * length (columns df)
      then Inl OperationalError
      else (case those (map (\<lambda>(ix, cs). those (map bind cs)) (rows df)) of
              None \<Rightarrow> Inl ProgrammingError
            | Some bound \<Rightarrow> insert_rows t (map (to_stock_row (columns df)) bound)))"

text \<open>
  The whole body is inside \<^verbatim>\<open>try\<close>, and every exception gives \<^verbatim>\<open>False\<close>. The frame
  \<^verbatim>\<open>data_to_save\<close>, restricted to the columns of the table, is computed and not used:
  \<^verbatim>\<open>to_sql\<close> is called on \<^verbatim>\<open>data\<close>. The result is the table and the returned value.
\<close>

definition add_date_column :: "dataframe \<Rightarrow> py_error + dataframe" where
  "add_date_column data =
     (if u ''Date'' \<in> set (columns data) then
        (case dt_date (u ''Date'') data of
           Inl e \<Rightarrow> Inl e
         | Inr vs \<Rightarrow> Inr (set_column_values (u ''date'') vs data))
      else if u ''Datetime'' \<in> set (columns data) then
        (case dt_date (u ''Datetime'') data of
           Inl e \<Rightarrow> Inl e
         | Inr vs \<Rightarrow> Inr (set_column_values (u ''date'') vs data))
      else Inr data)"

definition save_stock_data :: "stock_row list \<Rightarrow> pystr \<Rightarrow> dataframe \<Rightarrow> stock_row list \<times> bool" where
  "save_stock_data t symbol data =
     (case reset_index data of
        Inl e \<Rightarrow> (t, False)
      | Inr data1 \<Rightarrow>
          (case add_date_column data1 of
             Inl e \<Rightarrow> (t, False)
           | Inr data2 \<Rightarrow>
               (let data3 = set_column (u ''symbol'') (Text symbol) data2;
                    data4 = rename rename_map data3
                in case to_sql t data4 of
                     Inl e \<Rightarrow> (t, False)
                   | Inr t' \<Rightarrow> (t', True))))"

section \<open>Notions used in the statements\<close>



section \<open>Example data\<close>

text \<open>
  A parser for \<open>to_datetime\<close> that takes ISO dates; the source names of the columns
  that \<^verbatim>\<open>column_mapping\<close> translates, without \<^verbatim>\<open>trade_date\<close> and \<^verbatim>\<open>index\<close> (the schema of
  \<^verbatim>\<open>ak.stock_zh_a_hist\<close>); a vendor frame with a \<^verbatim>\<open>date\<close> column; what
  \<^verbatim>\<open>process_stock_data\<close> makes of it for the symbol 600000 and the period daily; the row
  that \<^verbatim>\<open>save_stocks_to_db\<close> stores for it in an empty table at time 0, and the database
  with that row.
\<close>

definition vendor_columns :: "pystr list" where
  "vendor_columns =
     map fst (filter (\<lambda>(k, v). k \<noteq> u ''trade_date'' \<and> k \<noteq> u ''index'') column_mapping)"

definition parse_iso :: "cell \<Rightarrow> date option" where
  "parse_iso v = (case v of Text s \<Rightarrow> strptime s | Stamp d \<Rightarrow> Some d | Day d \<Rightarrow> Some d | _ \<Rightarrow> None)"

definition dated_frame :: dataframe where
  "dated_frame =
     \<lparr>index_name = None, columns = [u ''date'', u ''open'', u ''close''],
      rows = [(Num 0, [Text (u ''2024-01-05''), Num 10, Num 11])]\<rparr>"

definition pipeline_frame :: "pystr \<Rightarrow> dataframe" where
  "pipeline_frame adjust =
     \<lparr>index_name = None,
      columns = [u ''date'', u ''open'', u ''close'', u ''symbol'', u ''period'', u ''adjust'',
                 u ''high'', u ''low'', u ''volume''],
      rows = [(Num 0, [Text (u ''2024-01-05''), Num 10, Num 11, Text (u ''600000''),
                       Text (u ''daily''), Text adjust, Null, Null, Null])]\<rparr>"

definition stored_row :: "pystr \<Rightarrow> hist_row" where
  "stored_row adjust =
     \<lparr>id_col = 1,
      vals = \<lparr>symbol_col = SText (u ''600000''), date_col = SText (u ''2024-01-05''),
               prices = [SNum 10, SNum 11, SNull, SNull, SNull, SNull, SNull, SNull, SNull, SNull],
               period_col = SText (u ''daily''), adjust_col = SText adjust\<rparr>,
      create_time = 0\<rparr>"

definition fresh_db :: db_file where
  "fresh_db = Opens \<lparr>hist = Some [], seq = 0\<rparr>"

definition stored_db :: "pystr \<Rightarrow> db_file" where
  "stored_db adjust = Opens \<lparr>hist = Some [stored_row adjust], seq = 1\<rparr>"





text \<open>
  For the table: the rows of a database file that opens and has the table; the key of a
  row; the four key values of no two rows being the same; a frame whose rows all carry a
  period and an adjust, as \<^verbatim>\<open>process_stock_data\<close> makes them; a frame at which
  \<^verbatim>\<open>save_stocks_to_db\<close> leaves or rolls back; a new row that \<^verbatim>\<open>INSERT OR IGNORE\<close>
  skips; a new row with period and adjust; and a sequence of calls of
  \<^verbatim>\<open>save_stocks_to_db\<close>, each with its clock and its list of frames.
\<close>

definition table_of :: "db_file \<Rightarrow> hist_row list option" where
  "table_of f = (case f of Unopenable \<Rightarrow> None | Opens db \<Rightarrow> hist db)"

definition key_of :: "hist_row \<Rightarrow> sqlval \<times> sqlval \<times> sqlval \<times> sqlval" where
  "key_of r =
     (symbol_col (vals r), date_col (vals r), period_col (vals r), adjust_col (vals r))"


definition keyed :: "dataframe \<Rightarrow> bool" where
  "keyed df \<longleftrightarrow>
     (\<forall>t \<in> set (data_to_insert df). period_col t \<noteq> Null \<and> adjust_col t \<noteq> Null)"

definition resets :: "dataframe \<Rightarrow> bool" where
  "resets df \<longleftrightarrow>
     \<not> df_empty df \<and>
     (u ''symbol'' \<notin> set (columns df) \<or> those (map bind_values (data_to_insert df)) = None)"

definition absorbed :: "hist_row list \<Rightarrow> sqlval hist_values \<Rightarrow> bool" where
  "absorbed rs v \<longleftrightarrow>
     symbol_col v = SNull \<or> date_col v = SNull \<or> (\<exists>r \<in> set rs. conflicts v r)"

definition full_key :: "sqlval hist_values \<Rightarrow> bool" where
  "full_key v \<longleftrightarrow> period_col v \<noteq> SNull \<and> adjust_col v \<noteq> SNull"


section \<open>Strings and symbol parsing\<close>























section \<open>Schema normalisation\<close>

lemma vendor_columns_eq:
  "vendor_columns =
     [[0x65E5, 0x671F], [0x5F00, 0x76D8], [0x6536, 0x76D8], [0x6700, 0x9AD8], [0x6700, 0x4F4E],
      [0x6210, 0x4EA4, 0x91CF], [0x6210, 0x4EA4, 0x989D], [0x632F, 0x5E45],
      [0x6DA8, 0x8DCC, 0x5E45], [0x6DA8, 0x8DCC, 0x989D], [0x6362, 0x624B, 0x7387]]"
  by (simp add: vendor_columns_def column_mapping_def u_def)

text \<open>
  Claim C6 says that \<^verbatim>\<open>process_stock_data\<close> returns a normalised frame for every frame
  in one of the mapped source schemas. It does not for the Chinese column names: such a
  frame has no \<^verbatim>\<open>date\<close> column, so the index is reset and becomes a column \<^verbatim>\<open>index\<close>; the
  renaming then turns both that column and the vendor's date column into \<^verbatim>\<open>date\<close>, and
  \<^verbatim>\<open>pd.to_datetime\<close> raises \<^verbatim>\<open>ValueError\<close> on the two columns, whatever the rows hold.
\<close>

theorem process_stock_data_vendor_schema_raises:
  "process_stock_data to_datetime \<lparr>index_name = None, columns = vendor_columns, rows = rs\<rparr>
     symbol period adjust = Inl ValueError"
  by (simp add: vendor_columns_eq process_stock_data_def reset_index_def rename_def
      convert_dates_def column_mapping_def u_def Let_def)

section \<open>The adjust key on the way in and on the way out\<close>

lemma process_dated_frame_None:
  "process_stock_data parse_iso dated_frame (u ''600000'') (u ''daily'') (u ''None'')
     = Inr (pipeline_frame (u ''None''))"
  by (simp add: process_stock_data_def dated_frame_def pipeline_frame_def u_def rename_def
      column_mapping_def convert_dates_def map_column_def dropna_def get_named_def parse_iso_def
      strptime_def expect_dash_def dig_def days_in_month_def is_leap_def strftime_def fmt4_def
      fmt2_def digit_def set_column_def required_columns_def Let_def)

lemma save_pipeline_frame:
  "save_stocks_to_db 0 [pipeline_frame a] fresh_db = (stored_db a, Inr 1)"
  by (simp add: save_stocks_to_db_def fresh_db_def stored_db_def stored_row_def pipeline_frame_def
      df_empty_def data_to_insert_def row_get_def get_named_def bind_values_def
      insert_or_ignore_def u_def Let_def)

lemma query_stored_None:
  "query_stocks_data (stored_db (u ''None'')) (u ''600000'') None None (u ''daily'') (u ''None'') = Inr []"
  by (simp add: query_stocks_data_def stored_db_def stored_row_def process_symbols_def replace_def
      strip_def isspace_def selected_def sql_eq_def count_params_def max_variable_number_def
      order_by_def u_def Let_def)

lemma query_stored_qfq:
  "query_stocks_data (stored_db (u ''qfq'')) (u ''600000'') None None (u ''daily'') (u ''qfq'')
     = Inr [stored_row (u ''qfq'')]"
  by (simp add: query_stocks_data_def stored_db_def stored_row_def process_symbols_def replace_def
      strip_def isspace_def selected_def sql_eq_def count_params_def max_variable_number_def
      order_by_def u_def Let_def)

lemma max_date_None:
  "max_date_query [stored_row (u ''None'')] (u ''600000'') (u ''daily'') (u ''None'') = SNull"
  by (simp add: max_date_query_def stored_row_def sql_eq_def sql_max_def u_def)

lemma max_date_qfq:
  "max_date_query [stored_row (u ''qfq'')] (u ''600000'') (u ''daily'') (u ''qfq'') = SText (u ''2024-01-05'')"
  by (simp add: max_date_query_def stored_row_def sql_eq_def sql_max_def u_def)

lemma update_stored_None:
  "update_stock_data to_datetime vendor n cfg \<lparr>year = 2024, month = 3, day = 1\<rparr>
       (stored_db (u ''None'')) (u ''600000'') (u ''daily'') (u ''None'')
     = Inr (safe_fetch_stock_data to_datetime vendor n cfg (u ''600000'') (u ''1990-01-01'')
             (u ''2024-03-01'') (u ''daily'') (u ''None'') None)"
  apply (simp add: update_stock_data_def stored_db_def max_date_None)
  apply (simp add: start_date_of_def strftime_def fmt4_def fmt2_def digit_def u_def)
  done

lemma update_stored_qfq:
  "update_stock_data to_datetime vendor n cfg \<lparr>year = 2024, month = 3, day = 1\<rparr>
       (stored_db (u ''qfq'')) (u ''600000'') (u ''daily'') (u ''qfq'')
     = Inr (safe_fetch_stock_data to_datetime vendor n cfg (u ''600000'') (u ''2024-01-06'')
             (u ''2024-03-01'') (u ''daily'') (u ''qfq'') None)"
  apply (simp add: update_stock_data_def stored_db_def max_date_qfq)
  apply (simp add: start_date_of_def strptime_def expect_dash_def dig_def days_in_month_def
      is_leap_def add_one_day_def strftime_def fmt4_def fmt2_def digit_def u_def)
  done

text \<open>
  Claim C3 says that rows saved under a triple (symbol, period, adjust) are found again
  under that triple, also for the unadjusted setting \<^verbatim>\<open>"None"\<close>. They are not: the row is
  stored with adjust \<^verbatim>\<open>"None"\<close>, and both the query and the \<^verbatim>\<open>MAX(date)\<close> of the update
  compare adjust with the empty string. For \<^verbatim>\<open>"qfq"\<close> the same row is found.
\<close>

theorem unadjusted_rows_are_not_found:
  "process_stock_data parse_iso dated_frame (u ''600000'') (u ''daily'') (u ''None'')
     = Inr (pipeline_frame (u ''None'')) \<and>
   save_stocks_to_db 0 [pipeline_frame (u ''None'')] fresh_db = (stored_db (u ''None''), Inr 1) \<and>
   query_stocks_data (stored_db (u ''None'')) (u ''600000'') None None (u ''daily'') (u ''None'')
     = Inr [] \<and>
   max_date_query [stored_row (u ''None'')] (u ''600000'') (u ''daily'') (u ''None'') = SNull \<and>
   query_stocks_data (stored_db (u ''qfq'')) (u ''600000'') None None (u ''daily'') (u ''qfq'')
     = Inr [stored_row (u ''qfq'')]"
  using process_dated_frame_None save_pipeline_frame [of "u ''None''"] query_stored_None
    max_date_None query_stored_qfq
  by blast

text \<open>
  Claim C2 says that for every adjust the window of the update starts on the day after
  the latest stored date of the triple. With the row of 2024-01-05 stored for
  (600000, daily, \<^verbatim>\<open>"None"\<close>), the update for that triple on 2024-03-01 asks for the window
  from 1990-01-01; for \<^verbatim>\<open>"qfq"\<close> it asks for the window from 2024-01-06.
\<close>

theorem update_window_misses_unadjusted_rows:
  "update_stock_data to_datetime vendor n cfg \<lparr>year = 2024, month = 3, day = 1\<rparr>
       (stored_db (u ''None'')) (u ''600000'') (u ''daily'') (u ''None'')
     = Inr (safe_fetch_stock_data to_datetime vendor n cfg (u ''600000'') (u ''1990-01-01'')
             (u ''2024-03-01'') (u ''daily'') (u ''None'') None) \<and>
   update_stock_data to_datetime vendor n cfg \<lparr>year = 2024, month = 3, day = 1\<rparr>
       (stored_db (u ''qfq'')) (u ''600000'') (u ''daily'') (u ''qfq'')
     = Inr (safe_fetch_stock_data to_datetime vendor n cfg (u ''600000'') (u ''2024-01-06'')
             (u ''2024-03-01'') (u ''daily'') (u ''qfq'') None)"
  using update_stored_None update_stored_qfq by blast

section \<open>The retry loop\<close>

declare attempt_loop.simps [simp del]















section \<open>INSERT OR IGNORE and the saving loop\<close>

lemma insert_or_ignore_absorbed:
  "absorbed rs v \<Longrightarrow> \<exists>sq' c'. insert_or_ignore now (rs, sq, c) v = (rs, sq', c')"
  by (auto simp: insert_or_ignore_def absorbed_def Let_def)

lemma insert_or_ignore_rows:
  "\<exists>rs' sq' c'. insert_or_ignore now (rs, sq, c) v = (rs', sq', c') \<and> set rs \<subseteq> set rs' \<and>
     (full_key v \<longrightarrow> absorbed rs' v) \<and>
     (full_key v \<longrightarrow> distinct (map key_of rs) \<longrightarrow> distinct (map key_of rs'))"
proof (cases "absorbed rs v")
  case True
  then obtain sq' c' where "insert_or_ignore now (rs, sq, c) v = (rs, sq', c')"
    using insert_or_ignore_absorbed by blast
  then show ?thesis using True by auto
next
  case False
  let ?r = "\<lparr>id_col = Suc (fold max (map id_col rs) sq), vals = v, create_time = now\<rparr>"
  from False have nn: "symbol_col v \<noteq> SNull" "date_col v \<noteq> SNull"
    and nc: "\<forall>r \<in> set rs. \<not> conflicts v r" by (auto simp: absorbed_def)
  have eq: "insert_or_ignore now (rs, sq, c) v
      = (rs @ [?r], Suc (fold max (map id_col rs) sq), c + 1)"
    using nn nc by (simp add: insert_or_ignore_def Let_def)
  have ab: "absorbed (rs @ [?r]) v" if "full_key v"
    using that nn by (auto simp: absorbed_def conflicts_def sql_eq_def full_key_def)
  have di: "distinct (map key_of (rs @ [?r]))" if fk: "full_key v" and d: "distinct (map key_of rs)"
  proof -
    have "key_of ?r \<notin> key_of ` set rs"
    proof
      assume "key_of ?r \<in> key_of ` set rs"
      then obtain x where x: "x \<in> set rs" and k: "key_of x = key_of ?r" by auto
      have "conflicts v x"
        using k nn fk by (auto simp: conflicts_def sql_eq_def key_of_def full_key_def)
      with nc x show False by blast
    qed
    with d show ?thesis by simp
  qed
  show ?thesis using eq ab di by auto
qed

lemma absorbed_mono: "absorbed rs v \<Longrightarrow> set rs \<subseteq> set rs' \<Longrightarrow> absorbed rs' v"
  by (auto simp: absorbed_def)

lemma insert_all_absorbed:
  "\<forall>v \<in> set vs. absorbed rs v \<Longrightarrow>
   \<exists>sq' c'. fold (\<lambda>v s. insert_or_ignore now s v) vs (rs, sq, c) = (rs, sq', c')"
proof (induction vs arbitrary: sq c)
  case Nil
  then show ?case by simp
next
  case (Cons v vs)
  have "absorbed rs v" using Cons.prems by simp
  then obtain sq1 c1 where 1: "insert_or_ignore now (rs, sq, c) v = (rs, sq1, c1)"
    using insert_or_ignore_absorbed [of rs v now sq c] by blast
  show ?case using Cons.IH [of sq1 c1] Cons.prems by (simp add: 1)
qed

lemma insert_all_rows:
  "\<exists>rs' sq' c'. fold (\<lambda>v s. insert_or_ignore now s v) vs (rs, sq, c) = (rs', sq', c') \<and>
     set rs \<subseteq> set rs' \<and>
     ((\<forall>v \<in> set vs. full_key v) \<longrightarrow> (\<forall>v \<in> set vs. absorbed rs' v)) \<and>
     ((\<forall>v \<in> set vs. full_key v) \<longrightarrow> distinct (map key_of rs) \<longrightarrow> distinct (map key_of rs'))"
proof (induction vs arbitrary: rs sq c)
  case Nil
  then show ?case by simp
next
  case (Cons v vs)
  obtain rs1 sq1 c1 where 1: "insert_or_ignore now (rs, sq, c) v = (rs1, sq1, c1)"
    and s1: "set rs \<subseteq> set rs1" and a1: "full_key v \<longrightarrow> absorbed rs1 v"
    and d1: "full_key v \<longrightarrow> distinct (map key_of rs) \<longrightarrow> distinct (map key_of rs1)"
    using insert_or_ignore_rows [of now rs sq c v] by blast
  obtain rs' sq' c' where 2: "fold (\<lambda>v s. insert_or_ignore now s v) vs (rs1, sq1, c1) = (rs', sq', c')"
    and s2: "set rs1 \<subseteq> set rs'"
    and a2: "(\<forall>v \<in> set vs. full_key v) \<longrightarrow> (\<forall>v \<in> set vs. absorbed rs' v)"
    and d2: "(\<forall>v \<in> set vs. full_key v) \<longrightarrow> distinct (map key_of rs1) \<longrightarrow> distinct (map key_of rs')"
    using Cons.IH [of rs1 sq1 c1] by blast
  have "fold (\<lambda>v s. insert_or_ignore now s v) (v # vs) (rs, sq, c) = (rs', sq', c')"
    by (simp add: 1 2)
  moreover have "set rs \<subseteq> set rs'" using s1 s2 by blast
  moreover have "(\<forall>x \<in> set (v # vs). full_key x) \<longrightarrow> (\<forall>x \<in> set (v # vs). absorbed rs' x)"
    using a1 a2 s2 absorbed_mono by auto
  moreover have "(\<forall>x \<in> set (v # vs). full_key x) \<longrightarrow> distinct (map key_of rs)
      \<longrightarrow> distinct (map key_of rs')"
    using d1 d2 by auto
  ultimately show ?case by blast
qed

lemma executemany_bound:
  "those (map bind_values ts) = Some vs \<Longrightarrow>
   executemany now st ts = Inr (fold (\<lambda>v s. insert_or_ignore now s v) vs st)"
proof (induction ts arbitrary: st vs)
  case Nil
  then show ?case by simp
next
  case (Cons t ts)
  from Cons.prems obtain x z where x: "bind_values t = Some x"
    and z: "those (map bind_values ts) = Some z" and vs: "vs = x # z"
    by (auto split: option.splits)
  show ?case using Cons.IH [OF z, of "insert_or_ignore now st x"] by (simp add: x vs)
qed

lemma executemany_unbound:
  "those (map bind_values ts) = None \<Longrightarrow> \<exists>c. executemany now st ts = Inl (ProgrammingError, c)"
proof (induction ts arbitrary: st)
  case Nil
  then show ?case by simp
next
  case (Cons t ts)
  show ?case
  proof (cases "bind_values t")
    case None
    then show ?thesis by simp
  next
    case (Some x)
    with Cons.prems have "those (map bind_values ts) = None" by (auto split: option.splits)
    then show ?thesis using Cons.IH [of "insert_or_ignore now st x"] by (simp add: Some)
  qed
qed

lemma bind_SNull: "bind x = Some SNull \<Longrightarrow> x = Null"
  by (cases x) auto

lemma bind_values_full_key:
  "bind_values t = Some v \<Longrightarrow> period_col t \<noteq> Null \<Longrightarrow> adjust_col t \<noteq> Null \<Longrightarrow> full_key v"
  by (auto simp: bind_values_def full_key_def split: option.splits dest: bind_SNull)

lemma those_map_Some:
  "those (map f xs) = Some ys \<Longrightarrow> \<forall>y \<in> set ys. \<exists>x \<in> set xs. f x = Some y"
proof (induction xs arbitrary: ys)
  case Nil
  then show ?case by simp
next
  case (Cons x xs)
  from Cons.prems obtain y z where y: "f x = Some y"
    and z: "those (map f xs) = Some z" and ys: "ys = y # z"
    by (auto split: option.splits)
  have "\<forall>w \<in> set z. \<exists>x \<in> set xs. f x = Some w" using Cons.IH [OF z] .
  then show ?case using y ys by auto
qed

lemma keyed_full_key:
  assumes "keyed df" and "those (map bind_values (data_to_insert df)) = Some vs"
  shows "\<forall>v \<in> set vs. full_key v"
proof
  fix v assume "v \<in> set vs"
  then obtain t where "t \<in> set (data_to_insert df)" "bind_values t = Some v"
    using those_map_Some [OF assms(2)] by blast
  then show "full_key v" using assms(1) bind_values_full_key by (auto simp: keyed_def)
qed

lemma save_loop_no_table:
  "hist base = None \<Longrightarrow> fst (save_loop now base base c t dfs) = Opens base"
  by (induction dfs arbitrary: c t) auto

lemma save_loop_good:
  assumes "hist cur = Some rs" and "\<not> df_empty df" and "u ''symbol'' \<in> set (columns df)"
    and "those (map bind_values (data_to_insert df)) = Some vs"
    and "fold (\<lambda>v s. insert_or_ignore now s v) vs (rs, seq cur, c) = (rs', sq', c')"
  shows "save_loop now base cur c t (df # dfs)
     = save_loop now base \<lparr>hist = Some rs', seq = sq'\<rparr> c' (t + c') dfs"
  using assms by (simp add: executemany_bound)

lemma save_loop_bad:
  assumes "hist cur = Some rs" and "\<not> df_empty df" and "u ''symbol'' \<in> set (columns df)"
    and "those (map bind_values (data_to_insert df)) = None"
  shows "\<exists>c'. save_loop now base cur c t (df # dfs) = save_loop now base base c' t dfs"
proof -
  obtain c' where "executemany now (rs, seq cur, c) (data_to_insert df) = Inl (ProgrammingError, c')"
    using executemany_unbound [OF assms(4)] by blast
  then show ?thesis using assms by auto
qed

lemma save_loop_table:
  assumes "hist base = Some b" and "hist cur = Some rs"
  shows "\<exists>db' rs'. fst (save_loop now base cur c t dfs) = Opens db' \<and> hist db' = Some rs' \<and>
     ((\<forall>df \<in> set dfs. \<not> resets df) \<longrightarrow> set rs \<subseteq> set rs') \<and>
     ((\<forall>df \<in> set dfs. keyed df) \<longrightarrow> distinct (map key_of b) \<longrightarrow> distinct (map key_of rs)
        \<longrightarrow> distinct (map key_of rs'))"
  using assms(2)
proof (induction dfs arbitrary: cur rs c t)
  case Nil
  then show ?case by simp
next
  case (Cons df dfs)
  show ?case
  proof (cases "df_empty df")
    case True
    have eq: "save_loop now base cur c t (df # dfs) = save_loop now base cur c t dfs"
      using True by simp
    show ?thesis using Cons.IH [OF Cons.prems, of c t] unfolding eq by auto
  next
    case ne: False
    show ?thesis
    proof (cases "u ''symbol'' \<in> set (columns df)")
      case False
      have eq: "save_loop now base cur c t (df # dfs) = (Opens base, Inl KeyError)"
        using False ne by simp
      have "resets df" using False ne by (simp add: resets_def)
      then show ?thesis using assms(1) unfolding eq by auto
    next
      case sym: True
      show ?thesis
      proof (cases "those (map bind_values (data_to_insert df))")
        case None
        obtain c' where step: "save_loop now base cur c t (df # dfs) = save_loop now base base c' t dfs"
          using save_loop_bad [OF Cons.prems ne sym None] by blast
        have r: "resets df" using ne None by (simp add: resets_def)
        show ?thesis using Cons.IH [OF assms(1), of c' t] r unfolding step by auto
      next
        case (Some vs)
        obtain rs1 sq1 c1 where f: "fold (\<lambda>v s. insert_or_ignore now s v) vs (rs, seq cur, c) = (rs1, sq1, c1)"
          and s1: "set rs \<subseteq> set rs1"
          and d1: "(\<forall>v \<in> set vs. full_key v) \<longrightarrow> distinct (map key_of rs) \<longrightarrow> distinct (map key_of rs1)"
          using insert_all_rows [of now vs rs "seq cur" c] by blast
        let ?cur = "\<lparr>hist = Some rs1, seq = sq1\<rparr>"
        have step: "save_loop now base cur c t (df # dfs) = save_loop now base ?cur c1 (t + c1) dfs"
          by (rule save_loop_good [OF Cons.prems ne sym Some f])
        have h: "hist ?cur = Some rs1" by simp
        obtain db' rs' where 1: "fst (save_loop now base ?cur c1 (t + c1) dfs) = Opens db'"
          and 2: "hist db' = Some rs'"
          and 3: "(\<forall>df \<in> set dfs. \<not> resets df) \<longrightarrow> set rs1 \<subseteq> set rs'"
          and 4: "(\<forall>df \<in> set dfs. keyed df) \<longrightarrow> distinct (map key_of b) \<longrightarrow> distinct (map key_of rs1)
                    \<longrightarrow> distinct (map key_of rs')"
          using Cons.IH [OF h, of c1 "t + c1"] by blast
        have fk: "keyed df \<longrightarrow> (\<forall>v \<in> set vs. full_key v)" using keyed_full_key [OF _ Some] by blast
        have "(\<forall>x \<in> set (df # dfs). \<not> resets x) \<longrightarrow> set rs \<subseteq> set rs'" using 3 s1 by auto
        moreover have "(\<forall>x \<in> set (df # dfs). keyed x) \<longrightarrow> distinct (map key_of b)
            \<longrightarrow> distinct (map key_of rs) \<longrightarrow> distinct (map key_of rs')"
          using 4 d1 fk by auto
        ultimately show ?thesis using 1 2 unfolding step by blast
      qed
    qed
  qed
qed

lemma save_loop_twice:
  assumes keyed: "\<forall>df \<in> set dfs. keyed df"
    and b1: "hist base1 = Some tb1" and b2: "hist base2 = Some tb2"
    and c1: "hist cur1 = Some r1" and c2: "hist cur2 = Some r2"
    and B: "table_of (fst (save_loop now1 base1 cur1 k1 t1 dfs)) = hist base2"
    and N: "(\<forall>df \<in> set dfs. \<not> resets df) \<longrightarrow>
              hist cur2 = table_of (fst (save_loop now1 base1 cur1 k1 t1 dfs))"
  shows "table_of (fst (save_loop now2 base2 cur2 k2 t2 dfs))
     = table_of (fst (save_loop now1 base1 cur1 k1 t1 dfs))"
  using keyed c1 c2 B N
proof (induction dfs arbitrary: cur1 r1 k1 t1 cur2 r2 k2 t2)
  case Nil
  then show ?case by (simp add: table_of_def)
next
  case (Cons df dfs)
  have keyed': "\<forall>x \<in> set dfs. keyed x" and kd: "keyed df" using Cons.prems(1) by auto
  note c1 = Cons.prems(2) and c2 = Cons.prems(3) and B = Cons.prems(4) and N = Cons.prems(5)
  show ?case
  proof (cases "df_empty df")
    case True
    have nr: "\<not> resets df" using True by (simp add: resets_def)
    have e1: "save_loop now1 base1 cur1 k1 t1 (df # dfs) = save_loop now1 base1 cur1 k1 t1 dfs"
      and e2: "save_loop now2 base2 cur2 k2 t2 (df # dfs) = save_loop now2 base2 cur2 k2 t2 dfs"
      using True by simp_all
    have B': "table_of (fst (save_loop now1 base1 cur1 k1 t1 dfs)) = hist base2"
      using B unfolding e1 .
    have N': "(\<forall>x \<in> set dfs. \<not> resets x) \<longrightarrow>
        hist cur2 = table_of (fst (save_loop now1 base1 cur1 k1 t1 dfs))"
      using N nr unfolding e1 by simp
    show ?thesis unfolding e1 e2 using Cons.IH [OF keyed' c1 c2 B' N'] .
  next
    case ne: False
    show ?thesis
    proof (cases "u ''symbol'' \<in> set (columns df)")
      case False
      have e1: "save_loop now1 base1 cur1 k1 t1 (df # dfs) = (Opens base1, Inl KeyError)"
        and e2: "save_loop now2 base2 cur2 k2 t2 (df # dfs) = (Opens base2, Inl KeyError)"
        using False ne by simp_all
      show ?thesis using B unfolding e1 e2 by (simp add: table_of_def)
    next
      case sym: True
      show ?thesis
      proof (cases "those (map bind_values (data_to_insert df))")
        case None
        obtain k1' where s1: "save_loop now1 base1 cur1 k1 t1 (df # dfs) = save_loop now1 base1 base1 k1' t1 dfs"
          using save_loop_bad [OF c1 ne sym None] by blast
        obtain k2' where s2: "save_loop now2 base2 cur2 k2 t2 (df # dfs) = save_loop now2 base2 base2 k2' t2 dfs"
          using save_loop_bad [OF c2 ne sym None] by blast
        have B': "table_of (fst (save_loop now1 base1 base1 k1' t1 dfs)) = hist base2"
          using B unfolding s1 .
        have N': "(\<forall>x \<in> set dfs. \<not> resets x) \<longrightarrow>
            hist base2 = table_of (fst (save_loop now1 base1 base1 k1' t1 dfs))"
          using B' by simp
        show ?thesis unfolding s1 s2 using Cons.IH [OF keyed' b1 b2 B' N'] .
      next
        case (Some vs)
        have fk: "\<forall>v \<in> set vs. full_key v" using keyed_full_key [OF kd Some] .
        obtain rs1 sq1 j1 where f1: "fold (\<lambda>v s. insert_or_ignore now1 s v) vs (r1, seq cur1, k1) = (rs1, sq1, j1)"
          and a1: "(\<forall>v \<in> set vs. full_key v) \<longrightarrow> (\<forall>v \<in> set vs. absorbed rs1 v)"
          using insert_all_rows [of now1 vs r1 "seq cur1" k1] by blast
        obtain rs2 sq2 j2 where f2: "fold (\<lambda>v s. insert_or_ignore now2 s v) vs (r2, seq cur2, k2) = (rs2, sq2, j2)"
          using insert_all_rows [of now2 vs r2 "seq cur2" k2] by blast
        let ?cur1 = "\<lparr>hist = Some rs1, seq = sq1\<rparr>" and ?cur2 = "\<lparr>hist = Some rs2, seq = sq2\<rparr>"
        have s1: "save_loop now1 base1 cur1 k1 t1 (df # dfs) = save_loop now1 base1 ?cur1 j1 (t1 + j1) dfs"
          by (rule save_loop_good [OF c1 ne sym Some f1])
        have s2: "save_loop now2 base2 cur2 k2 t2 (df # dfs) = save_loop now2 base2 ?cur2 j2 (t2 + j2) dfs"
          by (rule save_loop_good [OF c2 ne sym Some f2])
        have h1: "hist ?cur1 = Some rs1" and h2: "hist ?cur2 = Some rs2" by simp_all
        have B': "table_of (fst (save_loop now1 base1 ?cur1 j1 (t1 + j1) dfs)) = hist base2"
          using B unfolding s1 .
        have N': "(\<forall>x \<in> set dfs. \<not> resets x) \<longrightarrow>
            hist ?cur2 = table_of (fst (save_loop now1 base1 ?cur1 j1 (t1 + j1) dfs))"
        proof
          assume nr: "\<forall>x \<in> set dfs. \<not> resets x"
          have "\<not> resets df" using sym Some by (simp add: resets_def)
          with nr N have t2: "hist cur2 = table_of (fst (save_loop now1 base1 ?cur1 j1 (t1 + j1) dfs))"
            unfolding s1 by simp
          obtain db' rs' where 1: "fst (save_loop now1 base1 ?cur1 j1 (t1 + j1) dfs) = Opens db'"
            and 2: "hist db' = Some rs'" and 3: "set rs1 \<subseteq> set rs'"
            using save_loop_table [OF b1 h1, of now1 j1 "t1 + j1" dfs] nr by blast
          have r2: "r2 = rs'" using t2 c2 1 2 by (simp add: table_of_def)
          have "\<forall>v \<in> set vs. absorbed rs' v" using a1 fk 3 absorbed_mono by blast
          then obtain sq' c' where "fold (\<lambda>v s. insert_or_ignore now2 s v) vs (rs', seq cur2, k2) = (rs', sq', c')"
            using insert_all_absorbed by blast
          with f2 r2 have "rs2 = rs'" by simp
          then show "hist ?cur2 = table_of (fst (save_loop now1 base1 ?cur1 j1 (t1 + j1) dfs))"
            using 1 2 by (simp add: table_of_def)
        qed
        show ?thesis unfolding s1 s2 using Cons.IH [OF keyed' h1 h2 B' N'] .
      qed
    qed
  qed
qed

lemma save_stocks_to_db_twice:
  assumes "\<forall>df \<in> set dfs. keyed df"
  shows "table_of (fst (save_stocks_to_db now2 dfs (fst (save_stocks_to_db now1 dfs f))))
     = table_of (fst (save_stocks_to_db now1 dfs f))"
proof (cases "dfs = []")
  case True
  then show ?thesis by (simp add: save_stocks_to_db_def)
next
  case ne: False
  show ?thesis
  proof (cases f)
    case Unopenable
    then show ?thesis using ne by (simp add: save_stocks_to_db_def)
  next
    case (Opens db)
    show ?thesis
    proof (cases "hist db")
      case None
      have "fst (save_loop now1 db db 0 0 dfs) = Opens db" using save_loop_no_table [OF None] .
      moreover have "fst (save_loop now2 db db 0 0 dfs) = Opens db" using save_loop_no_table [OF None] .
      ultimately show ?thesis using ne Opens by (simp add: save_stocks_to_db_def)
    next
      case (Some rs)
      obtain db1 rs1 where 1: "fst (save_loop now1 db db 0 0 dfs) = Opens db1" and 2: "hist db1 = Some rs1"
        using save_loop_table [OF Some Some, of now1 0 0 dfs] by blast
      have B: "table_of (fst (save_loop now1 db db 0 0 dfs)) = hist db1" by (simp add: 1 table_of_def)
      have "table_of (fst (save_loop now2 db1 db1 0 0 dfs)) = table_of (fst (save_loop now1 db db 0 0 dfs))"
        using save_loop_twice [OF assms Some 2 Some 2 B, of now2 0 0] B by simp
      then show ?thesis using ne Opens by (simp add: save_stocks_to_db_def 1)
    qed
  qed
qed




lemma keyed_pipeline_frame: "keyed (pipeline_frame a)"
  by (simp add: keyed_def data_to_insert_def pipeline_frame_def row_get_def get_named_def u_def)


text \<open>
  Claim C1. For every list of frames whose rows carry a period and an adjust (the frames of
  the fetch pipeline), a second call of \<^verbatim>\<open>save_stocks_to_db\<close> with the same list, at any
  later time, leaves the rows of \<^verbatim>\<open>stock_zh_a_hist\<close>, ids and timestamps included, as the
  first call left them; this holds whether the file opens, whether the table exists, and
  when a frame makes the call roll back. Inserting a row whose key is in the table leaves
  the stored rows and the count of changes as they are.
\<close>

theorem save_stocks_to_db_idempotent:
  "((\<forall>df \<in> set df_list. keyed df) \<longrightarrow>
      table_of (fst (save_stocks_to_db now2 df_list (fst (save_stocks_to_db now1 df_list f))))
        = table_of (fst (save_stocks_to_db now1 df_list f))) \<and>
   ((\<exists>r \<in> set rs. conflicts v r) \<longrightarrow>
      fst (insert_or_ignore now (rs, sq, changes) v) = rs \<and>
      snd (snd (insert_or_ignore now (rs, sq, changes) v)) = changes)"
proof -
  have "fst (insert_or_ignore now (rs, sq, changes) v) = rs \<and>
      snd (snd (insert_or_ignore now (rs, sq, changes) v)) = changes"
    if "\<exists>r \<in> set rs. conflicts v r"
    using that by (simp add: insert_or_ignore_def Let_def)
  then show ?thesis using save_stocks_to_db_twice by blast
qed

theorem save_stocks_to_db_idempotent_witness:
  "table_of (fst (save_stocks_to_db 5 [pipeline_frame (u ''qfq'')]
       (fst (save_stocks_to_db 0 [pipeline_frame (u ''qfq'')] fresh_db))))
     = Some [stored_row (u ''qfq'')] \<and>
   fst (insert_or_ignore 5 ([stored_row (u ''qfq'')], 1, 0) (vals (stored_row (u ''qfq''))))
     = [stored_row (u ''qfq'')]"
proof -
  have k: "\<forall>df \<in> set [pipeline_frame (u ''qfq'')]. keyed df" by (simp add: keyed_pipeline_frame)
  have c: "\<exists>r \<in> set [stored_row (u ''qfq'')]. conflicts (vals (stored_row (u ''qfq''))) r"
    by (simp add: conflicts_def sql_eq_def stored_row_def)
  note t = save_stocks_to_db_idempotent [of "[pipeline_frame (u ''qfq'')]" 5 0 fresh_db
      "[stored_row (u ''qfq'')]" "vals (stored_row (u ''qfq''))" 5 1 0]
  have "table_of (fst (save_stocks_to_db 5 [pipeline_frame (u ''qfq'')]
       (fst (save_stocks_to_db 0 [pipeline_frame (u ''qfq'')] fresh_db))))
     = table_of (fst (save_stocks_to_db 0 [pipeline_frame (u ''qfq'')] fresh_db))"
    using t k by blast
  moreover have "table_of (fst (save_stocks_to_db 0 [pipeline_frame (u ''qfq'')] fresh_db))
     = Some [stored_row (u ''qfq'')]"
    by (simp add: save_pipeline_frame table_of_def stored_db_def)
  moreover have "fst (insert_or_ignore 5 ([stored_row (u ''qfq'')], 1, 0) (vals (stored_row (u ''qfq''))))
     = [stored_row (u ''qfq'')]"
    using t c by blast
  ultimately show ?thesis by simp
qed



end
